theory Spec2Isabelle
  imports Main "HOL-Library.AList" "HOL-Library.List_Lexorder" "HOL-Library.Char_ord"
begin

section \<open>Strings\<close>

text \<open>
  Go strings are byte sequences; they are modelled as \<open>string\<close> (a list of 8-bit characters).
  The SQL texts of \<^verbatim>\<open>sync.go\<close> are built by \<^verbatim>\<open>fmt.Sprintf\<close> from raw string literals that
  contain line feeds, tabs and double quotes; they are written out byte for byte.
\<close>

definition dq :: string where
  "dq = [CHR 0x22]"

definition sq :: string where
  "sq = [CHR 0x27]"

definition nl :: string where
  "nl = [CHR 0x0A]"

definition tab :: string where
  "tab = [CHR 0x09]"

text \<open>\<^verbatim>\<open>"%v"\<close> with a string argument: the argument between double quotes.\<close>

definition quoted :: "string \<Rightarrow> string" where
  "quoted s = dq @ s @ dq"

text \<open>
  \<^verbatim>\<open>strings.TrimSpace(s) == ""\<close>. TrimSpace removes the leading and trailing runes for which
  \<^verbatim>\<open>unicode.IsSpace\<close> holds, decoding the bytes as UTF-8, so the result is empty exactly when
  the whole string decodes into white-space runes. \<open>spaceWidth s\<close> is the number of bytes of
  the white-space rune \<open>s\<close> starts with, and 0 when it starts with none: the six ASCII
  spaces, U+0085 and U+00A0 (two bytes), U+1680, U+2000 to U+200A, U+2028, U+2029, U+202F,
  U+205F and U+3000 (three bytes).
\<close>

definition asciiSpace :: "char \<Rightarrow> bool" where
  "asciiSpace c = (c = CHR 0x09 \<or> c = CHR 0x0A \<or> c = CHR 0x0B \<or> c = CHR 0x0C
     \<or> c = CHR 0x0D \<or> c = CHR 0x20)"

definition spaceWidth :: "string \<Rightarrow> nat" where
  "spaceWidth s =
     (if s \<noteq> [] \<and> asciiSpace (hd s) then 1
      else if take 2 s = [CHR 0xC2, CHR 0x85] \<or> take 2 s = [CHR 0xC2, CHR 0xA0] then 2
      else if take 3 s = [CHR 0xE1, CHR 0x9A, CHR 0x80] then 3
      else if take 2 s = [CHR 0xE2, CHR 0x80] \<and> length s \<ge> 3
              \<and> (of_char (s ! 2) :: nat) \<in> {0x80..0x8A} \<union> {0xA8, 0xA9, 0xAF} then 3
      else if take 3 s = [CHR 0xE2, CHR 0x81, CHR 0x9F] then 3
      else if take 3 s = [CHR 0xE3, CHR 0x80, CHR 0x80] then 3
      else 0)"

fun isBlank :: "string \<Rightarrow> bool" where
  "isBlank s =
     (if s = [] then True
      else if spaceWidth s = 0 then False
      else isBlank (drop (spaceWidth s) s))"

declare isBlank.simps [simp del]

section \<open>The action log: data model (\<^verbatim>\<open>migration.go\<close>)\<close>

text \<open>
  The parameter structs. Several of them have fields of the same name, which Isabelle
  records cannot share, so each field carries the initials of its struct:
  \<open>at\<close> AddTableParams, \<open>dt\<close> DeleteTableParams, \<open>ac\<close> AddColumnParams,
  \<open>dc\<close> DeleteColumnParams, \<open>apk\<close> AddPrimaryKeyParams, \<open>dpk\<close> DeletePrimaryKeyParams.
\<close>

record AddTableParams =
  at_Name :: string

record DeleteTableParams =
  dt_Name :: string

record AddColumnParams =
  ac_Table :: string
  ac_Column :: string
  ac_Type :: string
  ac_IsNullable :: bool
  ac_DefaultValue :: string

record DeleteColumnParams =
  dc_Table :: string
  dc_Column :: string

record AddPrimaryKeyParams =
  apk_Table :: string
  apk_Column :: string

record DeletePrimaryKeyParams =
  dpk_Table :: string
  dpk_Column :: string

text \<open>
  \<^verbatim>\<open>Action.Params\<close> is a \<^verbatim>\<open>json.RawMessage\<close>: undecoded bytes.
\<close>

record Action =
  Method :: string
  Params :: string

record Migration =
  SchemaVersion :: string
  Id :: string
  Description :: string
  Actions :: "Action list"

text \<open>
  The dynamic values the code passes as \<^verbatim>\<open>interface{}\<close>: one of the six parameter structs,
  \<^verbatim>\<open>nil\<close>, or (second argument of \<^verbatim>\<open>GetSnapshotWithAction\<close> in \<^verbatim>\<open>sync.go\<close>) an \<^verbatim>\<open>int\<close>.
\<close>

datatype params =
    PAddTable AddTableParams
  | PDeleteTable DeleteTableParams
  | PAddColumn AddColumnParams
  | PDeleteColumn DeleteColumnParams
  | PAddPrimaryKey AddPrimaryKeyParams
  | PDeletePrimaryKey DeletePrimaryKeyParams
  | PInt nat
  | PNil

section \<open>Errors\<close>

text \<open>
  Go errors are values. \<open>Errorf f args\<close> is \<^verbatim>\<open>fmt.Errorf(f, args...)\<close> with the format string
  of the source kept as it is (the source writes \<^verbatim>\<open>/n\<close> where a line feed was meant). The
  other constructors are the errors of the libraries: the SQL driver refusing a statement,
  a failed scan, a failed commit or connection, \<^verbatim>\<open>json.Unmarshal\<close> refusing its input, the
  file system, and a run-time panic. \<open>NotFoundError\<close> and \<open>ConflictError\<close> are the two
  kinds the specification gives the snapshot builder, whose source file is not among the
  sources at hand.
\<close>

datatype stmt = Stmt (query: string) (args: "string list")

datatype error =
    Errorf string "fmtarg list"
  | ExecError stmt
  | QueryError
  | CommitError
  | ConnectError
  | BeginError
  | UnmarshalError string
  | ReadFileError string
  | WriteFileError string
  | GetwdError
  | Panic
  | NotFoundError
  | ConflictError
and fmtarg =
    AStr string
  | AParams params
  | AErr error

section \<open>The transaction\<close>

text \<open>
  The target store is outside the code. A transaction records every statement handed to
  \<^verbatim>\<open>Exec\<close> (\<open>sent\<close>), the statements the server executed (\<open>accepted\<close>) and the rows of
  the bookkeeping table \<^verbatim>\<open>_migrations\<close> as the transaction sees them. Which statements the
  server refuses is a parameter: a predicate on the statements executed so far and the new
  one. The only statement whose effect on the rows is modelled is the bookkeeping insert.
\<close>

type_synonym server = "stmt list \<Rightarrow> stmt \<Rightarrow> bool"

record tx =
  sent :: "stmt list"
  accepted :: "stmt list"
  rows :: "(string \<times> string) list"

definition insertQuery :: string where
  "insertQuery = ''INSERT INTO _migrations (id, data) VALUES ($1, $2)''"

definition effect :: "stmt \<Rightarrow> (string \<times> string) list \<Rightarrow> (string \<times> string) list" where
  "effect s rs =
     (case s of
        Stmt q [i, d] \<Rightarrow> if q = insertQuery then rs @ [(i, d)] else rs
      | _ \<Rightarrow> rs)"

definition Exec :: "server \<Rightarrow> tx \<Rightarrow> stmt \<Rightarrow> error option \<times> tx" where
  "Exec S t s =
     (if S (accepted t) s
      then (Some (ExecError s), t\<lparr>sent := sent t @ [s]\<rparr>)
      else (None, t\<lparr>sent := sent t @ [s], accepted := accepted t @ [s],
                     rows := effect s (rows t)\<rparr>))"

section \<open>Snapshots\<close>

text \<open>
  Modelled from the spec: the snapshot types. \<^verbatim>\<open>sync.go\<close> uses a snapshot, a table with a
  field \<^verbatim>\<open>PrimaryKeys\<close> ranged over in order, and the look-ups \<^verbatim>\<open>getTableFromSnapshot\<close> and
  \<^verbatim>\<open>getColumnFromTable\<close> that return \<^verbatim>\<open>nil\<close> for a missing name; their declarations are in a
  source file that is missing. The specification's data model: a snapshot is a set of
  tables, a table has a name, ordered columns keyed by name, each with type, nullability
  and default, and an ordered list of primary-key column names.
\<close>

record ColumnInfo =
  col_Type :: string
  col_IsNullable :: bool
  col_DefaultValue :: string

text \<open>
  Modelled from the spec: a table, with its name, its columns in order and its ordered
  primary-key column names (the field \<^verbatim>\<open>PrimaryKeys\<close> of \<^verbatim>\<open>sync.go\<close>).
\<close>

record Table =
  Name :: string
  Columns :: "(string \<times> ColumnInfo) list"
  PrimaryKeys :: "string list"

text \<open>Modelled from the spec: a snapshot, the tables of the schema.\<close>

type_synonym Snapshot = "Table list"

text \<open>Modelled from the spec: look-up of a table by name; \<open>None\<close> is the \<^verbatim>\<open>nil\<close> pointer.\<close>

definition getTableFromSnapshot :: "Snapshot \<Rightarrow> string \<Rightarrow> Table option" where
  "getTableFromSnapshot snapshot name = find (\<lambda>t. Name t = name) snapshot"

text \<open>Modelled from the spec: look-up of a column by name; \<open>None\<close> is the \<^verbatim>\<open>nil\<close> pointer.\<close>

definition getColumnFromTable :: "Table \<Rightarrow> string \<Rightarrow> ColumnInfo option" where
  "getColumnFromTable table name = map_of (Columns table) name"

text \<open>
  \<^verbatim>\<open>GetSnapshotWithAction\<close> is declared in the missing file too. Both call sites type-check
  against one signature, \<^verbatim>\<open>(string, interface{})\<close>: \<^verbatim>\<open>migration.go\<close> passes a method and a
  parameter struct, \<^verbatim>\<open>sync.go\<close> a migration id and an action index. The functions below
  take it as a parameter of this type.
\<close>

type_synonym snapshotter = "string \<Rightarrow> params \<Rightarrow> error + Snapshot"

section \<open>Applying one action (\<^verbatim>\<open>sync.go\<close>)\<close>

definition applyAddTable :: "server \<Rightarrow> tx \<Rightarrow> AddTableParams \<Rightarrow> error option \<times> tx" where
  "applyAddTable S t p =
     (if isBlank (at_Name p) then (Some (Errorf ''table is required'' []), t)
      else
        (case Exec S t (Stmt (''CREATE TABLE '' @ quoted (at_Name p) @ '' ();'') []) of
           (Some err, t') \<Rightarrow>
             (Some (Errorf ''can't create table %v: %v/n'' [AStr (at_Name p), AErr err]), t')
         | (None, t') \<Rightarrow> (None, t')))"

definition applyDeleteTable :: "server \<Rightarrow> tx \<Rightarrow> DeleteTableParams \<Rightarrow> error option \<times> tx" where
  "applyDeleteTable S t p =
     (if isBlank (dt_Name p) then (Some (Errorf ''table is required'' []), t)
      else
        (case Exec S t (Stmt (''DROP TABLE '' @ quoted (dt_Name p)) []) of
           (Some err, t') \<Rightarrow>
             (Some (Errorf ''can't delete table %v: %v/n'' [AStr (dt_Name p), AErr err]), t')
         | (None, t') \<Rightarrow> (None, t')))"

definition notNullParam :: "AddColumnParams \<Rightarrow> string" where
  "notNullParam p = (if \<not> ac_IsNullable p then ''NOT NULL'' else [])"

definition defaultValueParam :: "AddColumnParams \<Rightarrow> string" where
  "defaultValueParam p =
     (if ac_DefaultValue p \<noteq> [] then ''DEFAULT '' @ sq @ ac_DefaultValue p @ sq @ '';''
      else [])"

definition addColumnQuery :: "AddColumnParams \<Rightarrow> string" where
  "addColumnQuery p =
     nl @ tab @ tab @ ''ALTER TABLE '' @ quoted (ac_Table p) @
     nl @ tab @ tab @ tab @ ''ADD COLUMN '' @ quoted (ac_Column p) @ '' '' @ ac_Type p @
       '' '' @ notNullParam p @ '' '' @ defaultValueParam p @
     nl @ tab"

definition applyAddColumn :: "server \<Rightarrow> tx \<Rightarrow> AddColumnParams \<Rightarrow> error option \<times> tx" where
  "applyAddColumn S t p =
     (if isBlank (ac_Table p) then (Some (Errorf ''table is required'' []), t)
      else if isBlank (ac_Column p) then (Some (Errorf ''column is required'' []), t)
      else
        (case Exec S t (Stmt (addColumnQuery p) []) of
           (Some err, t') \<Rightarrow>
             (Some (Errorf ''can't add column '%v' to table '%v': %v/n''
                      [AStr (ac_Column p), AStr (ac_Table p), AErr err]), t')
         | (None, t') \<Rightarrow> (None, t')))"

definition deleteColumnQuery :: "DeleteColumnParams \<Rightarrow> string" where
  "deleteColumnQuery p =
     nl @ tab @ tab @ ''ALTER TABLE '' @ quoted (dc_Table p) @
     nl @ tab @ tab @ tab @ ''DROP COLUMN '' @ quoted (dc_Column p) @
     nl @ tab"

definition applyDeleteColumn :: "server \<Rightarrow> tx \<Rightarrow> DeleteColumnParams \<Rightarrow> error option \<times> tx" where
  "applyDeleteColumn S t p =
     (case Exec S t (Stmt (deleteColumnQuery p) []) of
        (Some err, t') \<Rightarrow>
          (Some (Errorf ''can't delete column '%v' at table '%v': %v/n''
                   [AStr (dc_Column p), AStr (dc_Table p), AErr err]), t')
      | (None, t') \<Rightarrow> (None, t'))"

definition dropConstraintQuery :: "string \<Rightarrow> string" where
  "dropConstraintQuery table =
     nl @ tab @ tab @ tab @ ''ALTER TABLE '' @ quoted table @
     nl @ tab @ tab @ tab @ tab @ ''DROP CONSTRAINT pkey'' @
     nl @ tab @ tab"

definition addConstraintQuery :: "string \<Rightarrow> string \<Rightarrow> string" where
  "addConstraintQuery table keys =
     nl @ tab @ tab @ ''ALTER TABLE '' @ quoted table @
     nl @ tab @ tab @ tab @ ''ADD CONSTRAINT pkey PRIMARY KEY ('' @ keys @ '');'' @
     nl @ tab"

text \<open>The loop of \<^verbatim>\<open>applyAddPrimaryKey\<close> that joins the key names, by index.\<close>

fun addKeys :: "nat \<Rightarrow> string list \<Rightarrow> string \<Rightarrow> string" where
  "addKeys index [] keys = keys"
| "addKeys index (key # rest) keys =
     addKeys (Suc index) rest
       (if index = 0 then quoted key else keys @ '', '' @ quoted key)"

definition applyAddPrimaryKey ::
  "server \<Rightarrow> snapshotter \<Rightarrow> tx \<Rightarrow> string \<Rightarrow> nat \<Rightarrow> AddPrimaryKeyParams \<Rightarrow> error option \<times> tx"
where
  "applyAddPrimaryKey S G t migrationId actionIndex p =
     (case G migrationId (PInt actionIndex) of
        Inl err \<Rightarrow> (Some err, t)
      | Inr snapshot \<Rightarrow>
          (case getTableFromSnapshot snapshot (apk_Table p) of
             None \<Rightarrow> (Some (Errorf ''table '%v' doesn't exist'' [AStr (apk_Table p)]), t)
           | Some table \<Rightarrow>
               (case getColumnFromTable table (apk_Column p) of
                  None \<Rightarrow>
                    (Some (Errorf ''column '%v' doesn't exist'' [AStr (apk_Column p)]), t)
                | Some column \<Rightarrow>
                    (case (if length (PrimaryKeys table) > 1
                           then Exec S t (Stmt (dropConstraintQuery (apk_Table p)) [])
                           else (None, t)) of
                       (Some err, t1) \<Rightarrow> (Some err, t1)
                     | (None, t1) \<Rightarrow>
                         (case Exec S t1
                                 (Stmt (addConstraintQuery (apk_Table p)
                                          (addKeys 0 (PrimaryKeys table) [])) []) of
                            (Some err, t2) \<Rightarrow>
                              (Some (Errorf ''can't add primary key '%v' to table '%v': %v/n''
                                       [AStr (apk_Column p), AStr (apk_Table p), AErr err]), t2)
                          | (None, t2) \<Rightarrow> (None, t2))))))"

text \<open>The loop of \<^verbatim>\<open>applyDeletePrimaryKey\<close>: the target column is passed over.\<close>

fun deleteKeys :: "string \<Rightarrow> string list \<Rightarrow> string \<Rightarrow> string" where
  "deleteKeys column [] keys = keys"
| "deleteKeys column (key # rest) keys =
     (if key = column then deleteKeys column rest keys
      else deleteKeys column rest
             (if keys = [] then quoted key else keys @ '', '' @ quoted key))"

definition applyDeletePrimaryKey ::
  "server \<Rightarrow> snapshotter \<Rightarrow> tx \<Rightarrow> string \<Rightarrow> nat \<Rightarrow> DeletePrimaryKeyParams \<Rightarrow> error option \<times> tx"
where
  "applyDeletePrimaryKey S G t migrationId actionIndex p =
     (case G migrationId (PInt actionIndex) of
        Inl err \<Rightarrow> (Some err, t)
      | Inr snapshot \<Rightarrow>
          (case getTableFromSnapshot snapshot (dpk_Table p) of
             None \<Rightarrow> (Some (Errorf ''table '%v' doesn't exist'' [AStr (dpk_Table p)]), t)
           | Some table \<Rightarrow>
               (case Exec S t (Stmt (dropConstraintQuery (dpk_Table p)) []) of
                  (Some err, t1) \<Rightarrow> (Some err, t1)
                | (None, t1) \<Rightarrow>
                    (case Exec S t1
                            (Stmt (addConstraintQuery (dpk_Table p)
                                     (deleteKeys (dpk_Column p) (PrimaryKeys table) [])) []) of
                       (Some err, t2) \<Rightarrow>
                         (Some (Errorf ''can't add primary key '%v' to table '%v': %v/n''
                                  [AStr (dpk_Column p), AStr (dpk_Table p), AErr err]), t2)
                     | (None, t2) \<Rightarrow> (None, t2)))))"

section \<open>JSON\<close>

text \<open>
  \<^verbatim>\<open>encoding/json\<close> is a library, not code of the repository: the functions below take its
  results as a parameter. \<open>None\<close> is an error return of \<^verbatim>\<open>json.Unmarshal\<close>. The three
  marshalling functions cannot fail on the structs they are given.
\<close>

record json =
  unmarshalMigration :: "string \<Rightarrow> Migration option"
  marshalMigration :: "Migration \<Rightarrow> string"
  marshalIndentMigration :: "Migration \<Rightarrow> string"
  marshalIndentParams :: "params \<Rightarrow> string"
  unmarshalAddTable :: "string \<Rightarrow> AddTableParams option"
  unmarshalDeleteTable :: "string \<Rightarrow> DeleteTableParams option"
  unmarshalAddColumn :: "string \<Rightarrow> AddColumnParams option"
  unmarshalDeleteColumn :: "string \<Rightarrow> DeleteColumnParams option"
  unmarshalAddPrimaryKey :: "string \<Rightarrow> AddPrimaryKeyParams option"
  unmarshalDeletePrimaryKey :: "string \<Rightarrow> DeletePrimaryKeyParams option"

section \<open>Applying a migration (\<^verbatim>\<open>sync.go\<close>)\<close>

definition decodeAction :: "json \<Rightarrow> string \<Rightarrow> string \<Rightarrow> error + (string \<times> params)" where
  "decodeAction J method params =
     (if method = ''addTable'' then
        (case unmarshalAddTable J params of
           None \<Rightarrow> Inl (UnmarshalError params)
         | Some addTableParams \<Rightarrow> Inr (method, PAddTable addTableParams))
      else if method = ''deleteTable'' then
        (case unmarshalDeleteTable J params of
           None \<Rightarrow> Inl (UnmarshalError params)
         | Some deleteTableParams \<Rightarrow> Inr (method, PDeleteTable deleteTableParams))
      else if method = ''addColumn'' then
        (case unmarshalAddColumn J params of
           None \<Rightarrow> Inl (UnmarshalError params)
         | Some addColumnParams \<Rightarrow> Inr (method, PAddColumn addColumnParams))
      else if method = ''deleteColumn'' then
        (case unmarshalDeleteColumn J params of
           None \<Rightarrow> Inl (UnmarshalError params)
         | Some deleteColumnParams \<Rightarrow> Inr (method, PDeleteColumn deleteColumnParams))
      else if method = ''addPrimaryKey'' then
        (case unmarshalAddPrimaryKey J params of
           None \<Rightarrow> Inl (UnmarshalError params)
         | Some addPrimaryKeyParams \<Rightarrow> Inr (method, PAddPrimaryKey addPrimaryKeyParams))
      else if method = ''deletePrimaryKey'' then
        (case unmarshalDeletePrimaryKey J params of
           None \<Rightarrow> Inl (UnmarshalError params)
         | Some deletePrimaryKeyParams \<Rightarrow>
             Inr (method, PDeletePrimaryKey deletePrimaryKeyParams))
      else Inr ([], PNil))"

text \<open>
  The \<^verbatim>\<open>switch\<close> of \<^verbatim>\<open>applyMigrationActions\<close>. A type assertion \<^verbatim>\<open>params.(T)\<close> on a value
  of another type panics; no case: \<^verbatim>\<open>err\<close> stays \<^verbatim>\<open>nil\<close> and nothing is executed.
\<close>

definition applyAction ::
  "server \<Rightarrow> snapshotter \<Rightarrow> tx \<Rightarrow> string \<Rightarrow> nat \<Rightarrow> string \<Rightarrow> params \<Rightarrow> error option \<times> tx"
where
  "applyAction S G t migrationId index method params =
     (if method = ''addTable'' then
        (case params of PAddTable p \<Rightarrow> applyAddTable S t p | _ \<Rightarrow> (Some Panic, t))
      else if method = ''deleteTable'' then
        (case params of PDeleteTable p \<Rightarrow> applyDeleteTable S t p | _ \<Rightarrow> (Some Panic, t))
      else if method = ''addColumn'' then
        (case params of PAddColumn p \<Rightarrow> applyAddColumn S t p | _ \<Rightarrow> (Some Panic, t))
      else if method = ''deleteColumn'' then
        (case params of PDeleteColumn p \<Rightarrow> applyDeleteColumn S t p | _ \<Rightarrow> (Some Panic, t))
      else if method = ''addPrimaryKey'' then
        (case params of
           PAddPrimaryKey p \<Rightarrow> applyAddPrimaryKey S G t migrationId index p
         | _ \<Rightarrow> (Some Panic, t))
      else if method = ''deletePrimaryKey'' then
        (case params of
           PDeletePrimaryKey p \<Rightarrow> applyDeletePrimaryKey S G t migrationId index p
         | _ \<Rightarrow> (Some Panic, t))
      else (None, t))"

text \<open>The loop of \<^verbatim>\<open>applyMigrationActions\<close> over the actions, from a given index on.\<close>

fun applyActionsFrom ::
  "json \<Rightarrow> server \<Rightarrow> snapshotter \<Rightarrow> string \<Rightarrow> nat \<Rightarrow> Action list \<Rightarrow> tx \<Rightarrow> error option \<times> tx"
where
  "applyActionsFrom J S G migrationId index [] t = (None, t)"
| "applyActionsFrom J S G migrationId index (action # rest) t =
     (case decodeAction J (Method action) (Params action) of
        Inl err \<Rightarrow> (Some (Errorf ''can't decode action %v/n'' [AErr err]), t)
      | Inr (method, params) \<Rightarrow>
          (case applyAction S G t migrationId index method params of
             (Some err, t') \<Rightarrow>
               (Some (Errorf ''can't apply action %v %v: %v/n''
                        [AStr method, AParams params, AErr err]), t')
           | (None, t') \<Rightarrow> applyActionsFrom J S G migrationId (Suc index) rest t'))"

definition applyMigrationActions ::
  "json \<Rightarrow> server \<Rightarrow> snapshotter \<Rightarrow> tx \<Rightarrow> Migration \<Rightarrow> error option \<times> tx"
where
  "applyMigrationActions J S G t migration =
     applyActionsFrom J S G (Id migration) 0 (Actions migration) t"

definition createMigrationsTable :: stmt where
  "createMigrationsTable =
     Stmt (nl @ tab @ tab @ ''CREATE TABLE IF NOT EXISTS _migrations ('' @
           nl @ ''        '' @ tab @ ''id varchar(255) NOT NULL,'' @
           nl @ ''        '' @ tab @ ''data text NOT NULL,'' @
           nl @ ''        '' @ tab @ ''PRIMARY KEY (id)'' @
           nl @ ''    )'') []"

definition addMigrationsTableIfNotExist :: "server \<Rightarrow> tx \<Rightarrow> error option \<times> tx" where
  "addMigrationsTableIfNotExist S t = Exec S t createMigrationsTable"

definition addMigrationToMigrationsTable ::
  "json \<Rightarrow> server \<Rightarrow> tx \<Rightarrow> Migration \<Rightarrow> error option \<times> tx"
where
  "addMigrationToMigrationsTable J S t migration =
     (let packedMigration = marshalMigration J migration
      in Exec S t (Stmt insertQuery [Id migration, packedMigration]))"

section \<open>Paths (\<^verbatim>\<open>path/filepath\<close>)\<close>

text \<open>
  The functions of \<^verbatim>\<open>path/filepath\<close> that the code calls, for the separator \<^verbatim>\<open>/\<close>.
  \<open>elements\<close> cuts a path at its separators.
\<close>

fun elements :: "string \<Rightarrow> string list" where
  "elements [] = [[]]"
| "elements (c # cs) =
     (if c = CHR ''/'' then [] # elements cs
      else (case elements cs of [] \<Rightarrow> [[c]] | e # es \<Rightarrow> (c # e) # es))"

text \<open>
  The loop of \<^verbatim>\<open>filepath.Clean\<close> over the elements, with the elements kept so far as a
  stack: an empty element and \<^verbatim>\<open>.\<close> are dropped; \<^verbatim>\<open>..\<close> removes the element before it,
  is dropped at the root, and is kept at the start of a path that is not rooted.
\<close>

fun cleanElements :: "bool \<Rightarrow> string list \<Rightarrow> string list \<Rightarrow> string list" where
  "cleanElements rooted kept [] = rev kept"
| "cleanElements rooted kept (e # es) =
     (if e = [] \<or> e = ''.'' then cleanElements rooted kept es
      else if e = ''..'' then
        (case kept of
           [] \<Rightarrow> if rooted then cleanElements rooted [] es else cleanElements rooted [e] es
         | e' # below \<Rightarrow>
             if e' = ''..'' then cleanElements rooted (e # kept) es
             else cleanElements rooted below es)
      else cleanElements rooted (e # kept) es)"

fun joinElements :: "string list \<Rightarrow> string" where
  "joinElements [] = []"
| "joinElements [e] = e"
| "joinElements (e # f # es) = e @ ''/'' @ joinElements (f # es)"

definition Clean :: "string \<Rightarrow> string" where
  "Clean path =
     (if path = [] then ''.''
      else
        (let rooted = (hd path = CHR ''/'');
             body = joinElements (cleanElements rooted [] (elements path))
         in if rooted then ''/'' @ body else if body = [] then ''.'' else body))"

text \<open>\<^verbatim>\<open>filepath.Join\<close> of two elements: empty elements are ignored, the result is cleaned.\<close>

definition Join :: "string \<Rightarrow> string \<Rightarrow> string" where
  "Join a b =
     (if a \<noteq> [] then Clean (a @ ''/'' @ b) else if b \<noteq> [] then Clean b else [])"

text \<open>\<^verbatim>\<open>filepath.Split\<close>: the path up to and with its last separator, and the rest.\<close>

definition Split :: "string \<Rightarrow> string \<times> string" where
  "Split path =
     (let file = rev (takeWhile (\<lambda>c. c \<noteq> CHR ''/'') (rev path))
      in (take (length path - length file) path, file))"

definition HasSuffix :: "string \<Rightarrow> string \<Rightarrow> bool" where
  "HasSuffix s suffix =
     (length suffix \<le> length s \<and> drop (length s - length suffix) s = suffix)"

definition TrimSuffix :: "string \<Rightarrow> string \<Rightarrow> string" where
  "TrimSuffix s suffix =
     (if HasSuffix s suffix then take (length s - length suffix) s else s)"

text \<open>
  \<^verbatim>\<open>hasMeta\<close> and \<^verbatim>\<open>cleanGlobPath\<close> of \<^verbatim>\<open>filepath.Glob\<close>: whether a path has one of the
  characters of the pattern syntax, \<^verbatim>\<open>*\<close>, \<^verbatim>\<open>?\<close>, \<^verbatim>\<open>[\<close> and the backslash; and the directory part
  of a pattern without its trailing separator.
\<close>

definition hasMeta :: "string \<Rightarrow> bool" where
  "hasMeta path =
     (CHR ''*'' \<in> set path \<or> CHR ''?'' \<in> set path \<or> CHR ''['' \<in> set path
      \<or> CHR 0x5C \<in> set path)"

definition cleanGlobPath :: "string \<Rightarrow> string" where
  "cleanGlobPath path =
     (if path = [] then ''.'' else if path = ''/'' then path
      else take (length path - 1) path)"

section \<open>The action log on disk (\<^verbatim>\<open>migration.go\<close>)\<close>

text \<open>
  The file system is outside the code. \<open>cwd\<close> is the working directory that \<^verbatim>\<open>os.Getwd\<close>
  returns and \<open>cwdError\<close> its error when it fails; \<open>files\<close> gives each file, by its cleaned
  absolute path, its content; \<open>writeError\<close> is the error of \<^verbatim>\<open>ioutil.WriteFile\<close> when it
  fails; \<open>otherGlob\<close> is what \<^verbatim>\<open>filepath.Glob\<close> answers to a pattern that the model does not
  work out from \<open>files\<close> (see \<open>Glob\<close> below).
\<close>

record filesystem =
  cwdError :: "error option"
  cwd :: string
  writeError :: "error option"
  otherGlob :: "string \<Rightarrow> error + string list"
  files :: "(string \<times> string) list"

definition GetMigrationsDirectoryPath :: "filesystem \<Rightarrow> error + string" where
  "GetMigrationsDirectoryPath fs =
     (case cwdError fs of
        Some err \<Rightarrow> Inl err
      | None \<Rightarrow> Inr (Join (cwd fs) ''migrations''))"

definition getMigrationPath :: "filesystem \<Rightarrow> string \<Rightarrow> error + string" where
  "getMigrationPath fs id' =
     (case GetMigrationsDirectoryPath fs of
        Inl err \<Rightarrow> Inl err
      | Inr migrationsDirectory \<Rightarrow> Inr (Join migrationsDirectory (id' @ ''.json'')))"

text \<open>\<^verbatim>\<open>ioutil.ReadFile\<close>: no bytes and an error for a file that is not there.\<close>

definition ReadFile :: "filesystem \<Rightarrow> string \<Rightarrow> string \<times> error option" where
  "ReadFile fs path =
     (case map_of (files fs) path of
        None \<Rightarrow> ([], Some (ReadFileError path))
      | Some content \<Rightarrow> (content, None))"


text \<open>
  \<^verbatim>\<open>GetText\<close> returns \<^verbatim>\<open>nil\<close> as its error on both paths: the error of \<^verbatim>\<open>getMigrationPath\<close>
  and the error of \<^verbatim>\<open>ReadFile\<close> are dropped.
\<close>

definition GetText :: "filesystem \<Rightarrow> string \<Rightarrow> string \<times> error option" where
  "GetText fs id' =
     (case getMigrationPath fs id' of
        Inl err \<Rightarrow> ([], None)
      | Inr migrationPath \<Rightarrow>
          (case ReadFile fs migrationPath of (migration, err) \<Rightarrow> (migration, None)))"

definition Get :: "json \<Rightarrow> filesystem \<Rightarrow> string \<Rightarrow> error + Migration" where
  "Get J fs id' =
     (case GetText fs id' of
        (rawMigration, Some err) \<Rightarrow> Inl err
      | (rawMigration, None) \<Rightarrow>
          (case unmarshalMigration J rawMigration of
             None \<Rightarrow>
               Inl (Errorf ''can't parse migration: %v/n'' [AErr (UnmarshalError rawMigration)])
           | Some migration \<Rightarrow> Inr migration))"

text \<open>
  The names of the entries of a directory: for each file under the directory, the first
  element of its path below the directory (the name of the file, or of the subdirectory
  that holds it).
\<close>

definition entries :: "filesystem \<Rightarrow> string \<Rightarrow> string list" where
  "entries fs dir =
     (let below = (if dir = ''/'' then dir else dir @ ''/'')
      in remdups
           (map (\<lambda>path. takeWhile (\<lambda>c. c \<noteq> CHR ''/'') (drop (length below) path))
              (filter (\<lambda>path. take (length below) path = below \<and> length below < length path)
                 (map fst (files fs)))))"

text \<open>
  \<^verbatim>\<open>filepath.Glob\<close>. The pattern of \<^verbatim>\<open>GetList\<close> is the migrations directory joined with
  \<^verbatim>\<open>*.json\<close>, and the working directory is part of it. When the directory part has
  no character of the pattern syntax, the matches are the entries of that directory
  whose name ends in \<^verbatim>\<open>.json\<close>, in the order of their names, each joined to the directory,
  and there is no error. When it has one, the directory is read as a pattern too: the
  answer, a list of matches found elsewhere or the error of a malformed pattern, is that of
  the environment, as it is for a last element other than \<^verbatim>\<open>*.json\<close>.
\<close>

definition Glob :: "filesystem \<Rightarrow> string \<Rightarrow> error + string list" where
  "Glob fs pattern =
     (case Split pattern of
        (dir, file) \<Rightarrow>
          (let dir = cleanGlobPath dir in
           if hasMeta dir \<or> file \<noteq> ''*.json'' then otherGlob fs pattern
           else Inr (map (\<lambda>name. Join dir name)
                       (sort (filter (\<lambda>name. HasSuffix name ''.json'') (entries fs dir))))))"

fun getListLoop :: "json \<Rightarrow> filesystem \<Rightarrow> string list \<Rightarrow> Migration list \<Rightarrow> error + Migration list"
where
  "getListLoop J fs [] result = Inr result"
| "getListLoop J fs (migrationPath # rest) result =
     (let fileName = snd (Split migrationPath);
          migrationId = TrimSuffix fileName ''.json''
      in case Get J fs migrationId of
           Inl err \<Rightarrow> Inl (Errorf ''can't read migration %v/n'' [AErr err])
         | Inr migration \<Rightarrow> getListLoop J fs rest (result @ [migration]))"

definition GetList :: "json \<Rightarrow> filesystem \<Rightarrow> error + Migration list" where
  "GetList J fs =
     (case GetMigrationsDirectoryPath fs of
        Inl err \<Rightarrow> Inl err
      | Inr migrationsDirectoryPath \<Rightarrow>
          (let configsPathPattern = Join migrationsDirectoryPath ''*.json''
           in case Glob fs configsPathPattern of
                Inl err \<Rightarrow> Inl err
              | Inr files' \<Rightarrow> getListLoop J fs (sort files') []))"


section \<open>Sync (\<^verbatim>\<open>sync.go\<close>)\<close>

text \<open>
  What the run meets outside the code: the error of \<^verbatim>\<open>sql.Open\<close> or \<^verbatim>\<open>db.Ping\<close>, of
  \<^verbatim>\<open>db.Begin\<close>, of the scan of the marker query (other than \<^verbatim>\<open>sql.ErrNoRows\<close>) and of
  \<^verbatim>\<open>Commit\<close>, when they fail; the statements the server refuses; and the rows
  \<^verbatim>\<open>(id, data)\<close> of \<^verbatim>\<open>_migrations\<close> stored before the run (none when the table does not exist
  yet).
\<close>

record world =
  connectError :: "error option"
  beginError :: "error option"
  queryError :: "error option"
  commitError :: "error option"
  refuses :: server
  stored :: "(string \<times> string) list"

text \<open>
  How a run ends: before a transaction exists, by the panic of \<^verbatim>\<open>Rollback\<close> on the \<^verbatim>\<open>nil\<close>
  transaction that a failed \<^verbatim>\<open>Begin\<close> returns, by a return that neither commits nor rolls
  back, by \<^verbatim>\<open>Rollback\<close>, or by \<^verbatim>\<open>Commit\<close>.
\<close>

datatype ending = NotBegun | Crashed | LeftOpen | RollbackCalled | CommitCalled

record run =
  returned :: "error option"
  ending :: ending
  transaction :: tx

text \<open>
  \<^verbatim>\<open>SELECT id FROM _migrations ORDER BY id DESC LIMIT 1\<close>: the greatest id, strings ordered
  as byte sequences; \<^verbatim>\<open>sql.ErrNoRows\<close> without rows, which the function turns into the empty
  id and no error. The empty string is the least string, so the fold starts from it.
\<close>

definition getCurrentSyncedMigrationId :: "world \<Rightarrow> tx \<Rightarrow> string \<times> error option" where
  "getCurrentSyncedMigrationId W t =
     (case queryError W of
        Some err \<Rightarrow> ([], Some err)
      | None \<Rightarrow>
          if rows t = [] then ([], None)
          else (foldr max (map fst (rows t)) [], None))"

text \<open>
  The loop of \<^verbatim>\<open>Sync\<close>. \<open>Inl\<close> is the return after \<^verbatim>\<open>Rollback\<close>, \<open>Inr\<close> the end of the loop.
  The result of \<^verbatim>\<open>addMigrationToMigrationsTable\<close> is not assigned, so the test that follows
  the call reads the \<^verbatim>\<open>err\<close> of \<^verbatim>\<open>applyMigrationActions\<close> a second time.
\<close>

fun syncLoop ::
  "json \<Rightarrow> server \<Rightarrow> snapshotter \<Rightarrow> string \<Rightarrow> bool \<Rightarrow> Migration list \<Rightarrow> tx \<Rightarrow> (error \<times> tx) + tx"
where
  "syncLoop J S G currentMigrationId isCurrentMigrationPassed [] t = Inr t"
| "syncLoop J S G currentMigrationId isCurrentMigrationPassed (migration # rest) t =
     (if Id migration = currentMigrationId
      then syncLoop J S G currentMigrationId True rest t
      else if \<not> isCurrentMigrationPassed
      then syncLoop J S G currentMigrationId isCurrentMigrationPassed rest t
      else
        (case applyMigrationActions J S G t migration of
           (err, t1) \<Rightarrow>
             if err \<noteq> None
             then Inl (Errorf ''can't apply migration %v: %v/n''
                         [AStr (Id migration), AErr (the err)], t1)
             else
               (let t2 = snd (addMigrationToMigrationsTable J S t1 migration)
                in if err \<noteq> None
                   then Inl (Errorf ''can't add migration to migrations table %v: %v/n''
                               [AStr (Id migration), AErr (the err)], t2)
                   else syncLoop J S G currentMigrationId isCurrentMigrationPassed rest t2)))"

text \<open>
  \<^verbatim>\<open>Sync\<close>. \<^verbatim>\<open>GetCurrentSnapshot\<close> is declared in the missing file: its result is a
  parameter.
\<close>

definition Sync :: "json \<Rightarrow> filesystem \<Rightarrow> snapshotter \<Rightarrow> error + Snapshot \<Rightarrow> world \<Rightarrow> run" where
  "Sync J fs G GetCurrentSnapshot W =
     (let t0 = \<lparr>sent = [], accepted = [], rows = stored W\<rparr> in
      case GetList J fs of
        Inl err \<Rightarrow>
          \<lparr>returned = Some (Errorf ''can't read migrations: %v/n'' [AErr err]),
           ending = NotBegun, transaction = t0\<rparr>
      | Inr migrations \<Rightarrow>
          (case connectError W of
             Some err \<Rightarrow>
               \<lparr>returned = Some (Errorf ''can't connect to db: %v'' [AErr err]),
                ending = NotBegun, transaction = t0\<rparr>
           | None \<Rightarrow>
               (case beginError W of
                  Some err \<Rightarrow> \<lparr>returned = Some Panic, ending = Crashed, transaction = t0\<rparr>
                | None \<Rightarrow>
                    (case addMigrationsTableIfNotExist (refuses W) t0 of
                       (Some err, t1) \<Rightarrow>
                         \<lparr>returned = Some (Errorf ''can't add migration table: %v'' [AErr err]),
                          ending = RollbackCalled, transaction = t1\<rparr>
                     | (None, t1) \<Rightarrow>
                         (case getCurrentSyncedMigrationId W t1 of
                            (currentMigrationId, Some err) \<Rightarrow>
                              \<lparr>returned = Some (Errorf ''can't read current migration state: %v''
                                                  [AErr err]),
                               ending = RollbackCalled, transaction = t1\<rparr>
                          | (currentMigrationId, None) \<Rightarrow>
                              (case GetCurrentSnapshot of
                                 Inl err \<Rightarrow>
                                   \<lparr>returned = Some err, ending = LeftOpen, transaction = t1\<rparr>
                               | Inr snapshot \<Rightarrow>
                                   (case syncLoop J (refuses W) G currentMigrationId
                                           (currentMigrationId = []) migrations t1 of
                                      Inl (err, t2) \<Rightarrow>
                                        \<lparr>returned = Some err, ending = RollbackCalled,
                                         transaction = t2\<rparr>
                                    | Inr t2 \<Rightarrow>
                                        \<lparr>returned = commitError W, ending = CommitCalled,
                                         transaction = t2\<rparr>)))))))"


text \<open>
  The migrations the loop of \<^verbatim>\<open>Sync\<close> does not pass over, for a marker and an initial value
  of \<^verbatim>\<open>isCurrentMigrationPassed\<close>: the two \<^verbatim>\<open>continue\<close> branches of the loop, alone.
\<close>

fun pending :: "string \<Rightarrow> bool \<Rightarrow> Migration list \<Rightarrow> Migration list" where
  "pending currentMigrationId isCurrentMigrationPassed [] = []"
| "pending currentMigrationId isCurrentMigrationPassed (migration # rest) =
     (if Id migration = currentMigrationId then pending currentMigrationId True rest
      else if \<not> isCurrentMigrationPassed
      then pending currentMigrationId isCurrentMigrationPassed rest
      else migration # pending currentMigrationId isCurrentMigrationPassed rest)"

section \<open>The snapshot builder\<close>

text \<open>
  Modelled from the spec: the source of the snapshot builder is missing. \<open>updateTable\<close>
  changes the table of a given name and leaves the others.
\<close>

definition updateTable :: "Snapshot \<Rightarrow> string \<Rightarrow> (Table \<Rightarrow> Table) \<Rightarrow> Snapshot" where
  "updateTable snapshot name f = map (\<lambda>t. if Name t = name then f t else t) snapshot"

text \<open>
  Modelled from the spec: one step of the fold, after the table of section 4.2. AddTable:
  table absent, insert an empty table, else ConflictError. DeleteTable: table present,
  remove it, else NotFoundError. AddColumn: table present and column absent, insert the
  column, else NotFoundError or ConflictError. DeleteColumn: table and column present,
  remove the column and, if it was a primary key, drop it from the key list, else
  NotFoundError. AddPrimaryKey: table and column present and not already a key, append to
  the ordered key list, else NotFoundError or ConflictError. DeletePrimaryKey: table present
  and column currently a key, remove it from the key list, keeping the order of the rest,
  else NotFoundError. A value that is none of the six kinds leaves the snapshot as it is.
\<close>

fun applyToSnapshot :: "Snapshot \<Rightarrow> params \<Rightarrow> error + Snapshot" where
  "applyToSnapshot snapshot (PAddTable p) =
     (case getTableFromSnapshot snapshot (at_Name p) of
        Some table \<Rightarrow> Inl ConflictError
      | None \<Rightarrow> Inr (snapshot @ [\<lparr>Name = at_Name p, Columns = [], PrimaryKeys = []\<rparr>]))"
| "applyToSnapshot snapshot (PDeleteTable p) =
     (case getTableFromSnapshot snapshot (dt_Name p) of
        None \<Rightarrow> Inl NotFoundError
      | Some table \<Rightarrow> Inr (filter (\<lambda>t. Name t \<noteq> dt_Name p) snapshot))"
| "applyToSnapshot snapshot (PAddColumn p) =
     (case getTableFromSnapshot snapshot (ac_Table p) of
        None \<Rightarrow> Inl NotFoundError
      | Some table \<Rightarrow>
          (case getColumnFromTable table (ac_Column p) of
             Some column \<Rightarrow> Inl ConflictError
           | None \<Rightarrow>
               Inr (updateTable snapshot (ac_Table p)
                      (\<lambda>t. t\<lparr>Columns := Columns t @
                         [(ac_Column p, \<lparr>col_Type = ac_Type p, col_IsNullable = ac_IsNullable p,
                                         col_DefaultValue = ac_DefaultValue p\<rparr>)]\<rparr>))))"
| "applyToSnapshot snapshot (PDeleteColumn p) =
     (case getTableFromSnapshot snapshot (dc_Table p) of
        None \<Rightarrow> Inl NotFoundError
      | Some table \<Rightarrow>
          (case getColumnFromTable table (dc_Column p) of
             None \<Rightarrow> Inl NotFoundError
           | Some column \<Rightarrow>
               Inr (updateTable snapshot (dc_Table p)
                      (\<lambda>t. t\<lparr>Columns := filter (\<lambda>c. fst c \<noteq> dc_Column p) (Columns t),
                             PrimaryKeys := filter (\<lambda>k. k \<noteq> dc_Column p) (PrimaryKeys t)\<rparr>))))"
| "applyToSnapshot snapshot (PAddPrimaryKey p) =
     (case getTableFromSnapshot snapshot (apk_Table p) of
        None \<Rightarrow> Inl NotFoundError
      | Some table \<Rightarrow>
          (case getColumnFromTable table (apk_Column p) of
             None \<Rightarrow> Inl NotFoundError
           | Some column \<Rightarrow>
               if apk_Column p \<in> set (PrimaryKeys table) then Inl ConflictError
               else Inr (updateTable snapshot (apk_Table p)
                           (\<lambda>t. t\<lparr>PrimaryKeys := PrimaryKeys t @ [apk_Column p]\<rparr>))))"
| "applyToSnapshot snapshot (PDeletePrimaryKey p) =
     (case getTableFromSnapshot snapshot (dpk_Table p) of
        None \<Rightarrow> Inl NotFoundError
      | Some table \<Rightarrow>
          if dpk_Column p \<notin> set (PrimaryKeys table) then Inl NotFoundError
          else Inr (updateTable snapshot (dpk_Table p)
                      (\<lambda>t. t\<lparr>PrimaryKeys := filter (\<lambda>k. k \<noteq> dpk_Column p) (PrimaryKeys t)\<rparr>)))"
| "applyToSnapshot snapshot (PInt n) = Inr snapshot"
| "applyToSnapshot snapshot PNil = Inr snapshot"

text \<open>
  Modelled from the spec: the fold of an ordered action sequence, which stops at the first
  action that fails.
\<close>

fun foldActions :: "Snapshot \<Rightarrow> params list \<Rightarrow> error + Snapshot" where
  "foldActions snapshot [] = Inr snapshot"
| "foldActions snapshot (action # rest) =
     (case applyToSnapshot snapshot action of
        Inl err \<Rightarrow> Inl err
      | Inr snapshot' \<Rightarrow> foldActions snapshot' rest)"

text \<open>
  Modelled from the spec: the actions of a decoded log (each migration an id and its
  actions, in order) that come before action \<open>actionIndex\<close> of migration \<open>migrationId\<close>;
  \<open>None\<close> when the log has no such migration.
\<close>

fun actionsBefore :: "(string \<times> params list) list \<Rightarrow> string \<Rightarrow> nat \<Rightarrow> params list option" where
  "actionsBefore [] migrationId actionIndex = None"
| "actionsBefore ((m, actions) # rest) migrationId actionIndex =
     (if m = migrationId then Some (take actionIndex actions)
      else map_option (\<lambda>later. actions @ later) (actionsBefore rest migrationId actionIndex))"

text \<open>
  Modelled from the spec: \<^verbatim>\<open>snapshotAsOf(migrationId, actionIndex)\<close>, the replay of the log
  from the empty schema up to and excluding the given action.
\<close>

definition snapshotAsOf :: "(string \<times> params list) list \<Rightarrow> string \<Rightarrow> nat \<Rightarrow> error + Snapshot" where
  "snapshotAsOf log migrationId actionIndex =
     (case actionsBefore log migrationId actionIndex of
        None \<Rightarrow> Inl NotFoundError
      | Some actions \<Rightarrow> foldActions [] actions)"

text \<open>
  Modelled from the spec: \<^verbatim>\<open>previewWithHypothetical(method, params)\<close>, the replay of the
  entire current log plus one trailing candidate action.
\<close>

definition previewWithHypothetical :: "(string \<times> params list) list \<Rightarrow> params \<Rightarrow> error + Snapshot" where
  "previewWithHypothetical log candidate =
     foldActions [] (concat (map snd log) @ [candidate])"

section \<open>Auxiliary notions for the statements\<close>

text \<open>The elements of a list separated by a comma and a space.\<close>

fun commaList :: "string list \<Rightarrow> string" where
  "commaList [] = []"
| "commaList [x] = x"
| "commaList (x # y # ys) = x @ '', '' @ commaList (y # ys)"

text \<open>The six methods \<^verbatim>\<open>decodeAction\<close> and \<^verbatim>\<open>applyMigrationActions\<close> have a case for.\<close>

definition knownMethods :: "string set" where
  "knownMethods = {''addTable'', ''deleteTable'', ''addColumn'', ''deleteColumn'',
                   ''addPrimaryKey'', ''deletePrimaryKey''}"



section \<open>A concrete log\<close>

text \<open>
  Two migrations: the first creates a table \<^verbatim>\<open>users\<close> with a column \<^verbatim>\<open>id\<close> as its primary
  key, the second adds a column \<^verbatim>\<open>email\<close> and makes it a key column too. The texts of the
  files and of the parameters stand for their JSON; \<open>exampleJson\<close> decodes exactly these
  texts and refuses every other input, the empty one included, as \<^verbatim>\<open>json.Unmarshal\<close> does.
\<close>

definition migration1 :: Migration where
  "migration1 =
     \<lparr>SchemaVersion = ''1'', Id = ''20240101000000'', Description = ''users'',
      Actions = [\<lparr>Method = ''addTable'', Params = ''users''\<rparr>,
                 \<lparr>Method = ''addColumn'', Params = ''users.id''\<rparr>,
                 \<lparr>Method = ''addPrimaryKey'', Params = ''users.id''\<rparr>]\<rparr>"

definition migration2 :: Migration where
  "migration2 =
     \<lparr>SchemaVersion = ''1'', Id = ''20240102000000'', Description = ''email'',
      Actions = [\<lparr>Method = ''addColumn'', Params = ''users.email''\<rparr>,
                 \<lparr>Method = ''addPrimaryKey'', Params = ''users.email''\<rparr>]\<rparr>"

text \<open>
  Three more migrations. The third has no action yet. The last two each create a table, and
  the id of the first of them is the greater one.
\<close>

definition migration3 :: Migration where
  "migration3 =
     \<lparr>SchemaVersion = ''1'', Id = ''20240103000000'', Description = ''later'',
      Actions = []\<rparr>"

definition migrationA :: Migration where
  "migrationA =
     \<lparr>SchemaVersion = ''1'', Id = ''20240102000000'', Description = ''users'',
      Actions = [\<lparr>Method = ''addTable'', Params = ''users''\<rparr>]\<rparr>"

definition migrationB :: Migration where
  "migrationB =
     \<lparr>SchemaVersion = ''1'', Id = ''20240101000000'', Description = ''orders'',
      Actions = [\<lparr>Method = ''addTable'', Params = ''orders''\<rparr>]\<rparr>"

definition usersId :: AddColumnParams where
  "usersId = \<lparr>ac_Table = ''users'', ac_Column = ''id'', ac_Type = ''integer'',
              ac_IsNullable = False, ac_DefaultValue = []\<rparr>"

definition usersEmail :: AddColumnParams where
  "usersEmail = \<lparr>ac_Table = ''users'', ac_Column = ''email'', ac_Type = ''text'',
                 ac_IsNullable = True, ac_DefaultValue = []\<rparr>"

definition exampleJson :: json where
  "exampleJson =
     \<lparr>unmarshalMigration =
        (\<lambda>raw. if raw = ''file 1'' then Some migration1
               else if raw = ''file 2'' then Some migration2
               else if raw = ''file 3'' then Some migration3
               else if raw = ''file a'' then Some migrationA
               else if raw = ''file b'' then Some migrationB else None),
      marshalMigration = (\<lambda>m. ''migration '' @ Id m),
      marshalIndentMigration =
        (\<lambda>m. ''migration '' @ Id m @ '' with '' @ concat (map Method (Actions m))),
      marshalIndentParams =
        (\<lambda>p. case p of PAddTable a \<Rightarrow> at_Name a | PDeleteTable a \<Rightarrow> dt_Name a | _ \<Rightarrow> []),
      unmarshalAddTable = (\<lambda>raw. if raw = [] then None else Some \<lparr>at_Name = raw\<rparr>),
      unmarshalDeleteTable = (\<lambda>raw. if raw = [] then None else Some \<lparr>dt_Name = raw\<rparr>),
      unmarshalAddColumn =
        (\<lambda>raw. if raw = ''users.id'' then Some usersId
               else if raw = ''users.email'' then Some usersEmail else None),
      unmarshalDeleteColumn = (\<lambda>raw. None),
      unmarshalAddPrimaryKey =
        (\<lambda>raw. if raw = ''users.id'' then Some \<lparr>apk_Table = ''users'', apk_Column = ''id''\<rparr>
               else if raw = ''users.email''
               then Some \<lparr>apk_Table = ''users'', apk_Column = ''email''\<rparr> else None),
      unmarshalDeletePrimaryKey =
        (\<lambda>raw. if raw = ''users.id'' then Some \<lparr>dpk_Table = ''users'', dpk_Column = ''id''\<rparr>
               else None)\<rparr>"

text \<open>
  The directory of the concrete log, under the working directory \<^verbatim>\<open>/srv/app\<close>, which has
  no character of the pattern syntax.
\<close>

definition exampleFiles :: filesystem where
  "exampleFiles =
     \<lparr>cwdError = None, cwd = ''/srv/app'', writeError = None,
      otherGlob = (\<lambda>pattern. Inr []),
      files = [(''/srv/app/migrations/20240102000000.json'', ''file 2''),
               (''/srv/app/migrations/20240101000000.json'', ''file 1''),
               (''/srv/app/migrations/README'', ''not a migration'')]\<rparr>"



text \<open>
  The same directories under the working directory \<^verbatim>\<open>/srv/app[1]\<close>, whose name has a
  character of the pattern syntax: \<^verbatim>\<open>filepath.Glob\<close> reads \<^verbatim>\<open>[1]\<close> as a character class,
  which the directory name itself does not match, and finds no file.
\<close>

definition bracketFiles :: filesystem where
  "bracketFiles =
     \<lparr>cwdError = None, cwd = ''/srv/app[1]'', writeError = None,
      otherGlob = (\<lambda>pattern. Inr []),
      files = [(''/srv/app[1]/migrations/20240102000000.json'', ''file 2''),
               (''/srv/app[1]/migrations/20240101000000.json'', ''file 1'')]\<rparr>"

text \<open>The same log, decoded.\<close>

definition exampleLog :: "(string \<times> params list) list" where
  "exampleLog =
     [(''20240101000000'',
         [PAddTable \<lparr>at_Name = ''users''\<rparr>, PAddColumn usersId,
          PAddPrimaryKey \<lparr>apk_Table = ''users'', apk_Column = ''id''\<rparr>]),
      (''20240102000000'',
         [PAddColumn usersEmail,
          PAddPrimaryKey \<lparr>apk_Table = ''users'', apk_Column = ''email''\<rparr>])]"

text \<open>
  Modelled from the spec: the two operations of section 4.2 over the concrete log, under the
  one name and signature the source calls: an action index asks for the snapshot before
  that action, a parameter struct for the preview with that candidate.
\<close>

definition exampleSnapshotter :: snapshotter where
  "exampleSnapshotter name arg =
     (case arg of
        PInt actionIndex \<Rightarrow> snapshotAsOf exampleLog name actionIndex
      | candidate \<Rightarrow> previewWithHypothetical exampleLog candidate)"

text \<open>
  Modelled from the spec: \<^verbatim>\<open>GetCurrentSnapshot\<close>, the replay of the full log from end to
  end, over the concrete log.
\<close>

definition exampleCurrentSnapshot :: "error + Snapshot" where
  "exampleCurrentSnapshot = foldActions [] (concat (map snd exampleLog))"





text \<open>
  A server that refuses nothing, a server that refuses the creation of the table \<^verbatim>\<open>orders\<close>,
  as one on which the table exists does, and an empty target store that answers every call.
\<close>

definition acceptAll :: server where
  "acceptAll executed s = False"


definition emptyStore :: world where
  "emptyStore =
     \<lparr>connectError = None, beginError = None, queryError = None, commitError = None,
      refuses = acceptAll, stored = []\<rparr>"

definition emptyTx :: tx where
  "emptyTx = \<lparr>sent = [], accepted = [], rows = []\<rparr>"

section \<open>Facts about the key lists\<close>

lemma quoted_not_empty: "quoted k \<noteq> []"
  by (simp add: quoted_def dq_def)




lemma deleteKeys_from:
  "deleteKeys column ks keys =
     (let remaining = map quoted (filter (\<lambda>k. k \<noteq> column) ks)
      in if remaining = [] then keys
         else if keys = [] then commaList remaining
         else keys @ '', '' @ commaList remaining)"
proof (induction ks arbitrary: keys)
  case Nil
  show ?case by simp
next
  case (Cons k ks)
  show ?case
  proof (cases "k = column")
    case True
    then show ?thesis by (simp add: Cons.IH)
  next
    case False
    then show ?thesis
      by (cases "filter (\<lambda>k. k \<noteq> column) ks")
         (simp_all add: Cons.IH Let_def quoted_not_empty)
  qed
qed

lemma deleteKeys_commaList:
  "deleteKeys column ks [] = commaList (map quoted (filter (\<lambda>k. k \<noteq> column) ks))"
  by (simp add: deleteKeys_from Let_def)

section \<open>AddColumn\<close>

text \<open>
  C8. When \<^verbatim>\<open>applyAddColumn\<close> emits its statement (the table and the column name are not
  blank), the statement is the one \<^verbatim>\<open>ALTER TABLE ... ADD COLUMN\<close> with the column name
  and the declared type, followed by \<^verbatim>\<open>NOT NULL\<close> exactly when \<^verbatim>\<open>IsNullable\<close> is false and
  by a \<^verbatim>\<open>DEFAULT\<close> clause exactly when \<^verbatim>\<open>DefaultValue\<close> is not the empty string.
\<close>

theorem applyAddColumn_ddl:
  assumes "\<not> isBlank (ac_Table p)" and "\<not> isBlank (ac_Column p)"
  shows "sent (snd (applyAddColumn S t p)) = sent t @
           [Stmt (nl @ tab @ tab @ ''ALTER TABLE '' @ quoted (ac_Table p) @
                  nl @ tab @ tab @ tab @ ''ADD COLUMN '' @ quoted (ac_Column p) @
                  '' '' @ ac_Type p @
                  '' '' @ (if ac_IsNullable p then [] else ''NOT NULL'') @
                  '' '' @ (if ac_DefaultValue p = [] then []
                           else ''DEFAULT '' @ sq @ ac_DefaultValue p @ sq @ '';'') @
                  nl @ tab) []]"
  using assms
  by (simp add: applyAddColumn_def addColumnQuery_def notNullParam_def defaultValueParam_def
      Exec_def)

theorem applyAddColumn_ddl_witness:
  "\<not> isBlank ''users'' \<and> \<not> isBlank ''email'' \<and>
   sent (snd (applyAddColumn acceptAll emptyTx usersEmail)) =
     [Stmt (nl @ tab @ tab @ ''ALTER TABLE '' @ quoted ''users'' @
            nl @ tab @ tab @ tab @ ''ADD COLUMN '' @ quoted ''email'' @
            '' text  '' @ nl @ tab) []]"
proof -
  have a: "\<not> isBlank (ac_Table usersEmail)"
    by (simp add: usersEmail_def isBlank.simps spaceWidth_def asciiSpace_def)
  have b: "\<not> isBlank (ac_Column usersEmail)"
    by (simp add: usersEmail_def isBlank.simps spaceWidth_def asciiSpace_def)
  show ?thesis
    using a b applyAddColumn_ddl [OF a b, of acceptAll emptyTx]
    by (simp add: usersEmail_def emptyTx_def)
qed

section \<open>Decoding\<close>

text \<open>
  \<^verbatim>\<open>decodeAction\<close> returns, with each known method, the parameter struct of that method: the
  type assertions of \<^verbatim>\<open>applyMigrationActions\<close> do not panic.
\<close>

lemma decodeAction_typed:
  "decodeAction J name raw = Inr (method', arg) \<Longrightarrow>
   (method' = ''addTable'' \<longrightarrow> (\<exists>p. arg = PAddTable p)) \<and>
   (method' = ''deleteTable'' \<longrightarrow> (\<exists>p. arg = PDeleteTable p)) \<and>
   (method' = ''addColumn'' \<longrightarrow> (\<exists>p. arg = PAddColumn p)) \<and>
   (method' = ''deleteColumn'' \<longrightarrow> (\<exists>p. arg = PDeleteColumn p)) \<and>
   (method' = ''addPrimaryKey'' \<longrightarrow> (\<exists>p. arg = PAddPrimaryKey p)) \<and>
   (method' = ''deletePrimaryKey'' \<longrightarrow> (\<exists>p. arg = PDeletePrimaryKey p))"
  by (auto simp add: decodeAction_def split: if_splits option.splits)

section \<open>Unknown methods\<close>

text \<open>
  C10. For an action whose method is none of the six known ones, \<^verbatim>\<open>decodeAction\<close> returns
  the empty method, \<^verbatim>\<open>nil\<close> parameters and no error, and the loop of
  \<^verbatim>\<open>applyMigrationActions\<close> goes on with the next action, at the next index, in the same
  transaction state: no statement is executed for the action and the run does not fail.
\<close>

theorem unknown_method_skipped:
  assumes "Method action \<notin> knownMethods"
  shows "decodeAction J (Method action) (Params action) = Inr ([], PNil) \<and>
         applyActionsFrom J S G migrationId index (action # rest) t =
           applyActionsFrom J S G migrationId (Suc index) rest t"
  using assms
  by (simp add: knownMethods_def decodeAction_def applyAction_def)

theorem unknown_method_skipped_witness:
  "''renameColumn'' \<notin> knownMethods \<and>
   decodeAction exampleJson ''renameColumn'' ''users.id'' = Inr ([], PNil) \<and>
   applyActionsFrom exampleJson acceptAll exampleSnapshotter ''20240103000000'' 0
     [\<lparr>Method = ''renameColumn'', Params = ''users.id''\<rparr>] emptyTx = (None, emptyTx)"
proof -
  have a: "Method \<lparr>Method = ''renameColumn'', Params = ''users.id''\<rparr> \<notin> knownMethods"
    by (simp add: knownMethods_def)
  show ?thesis
    using a unknown_method_skipped [OF a, of exampleJson acceptAll exampleSnapshotter
        "''20240103000000''" 0 "[]" emptyTx]
    by (simp del: applyActionsFrom.simps(2))
qed

section \<open>Primary keys\<close>



text \<open>
  The other reading of the helper, for comparison. Were \<^verbatim>\<open>GetSnapshotWithAction\<close> to answer
  with the snapshot that already includes the action, here the one after the second action
  of the second migration, in which \<^verbatim>\<open>users\<close> has the key columns \<^verbatim>\<open>id\<close> and \<^verbatim>\<open>email\<close>, the
  same code would drop the constraint and create it again over the two columns. The
  snapshot it computes is then not the pre-action one.
\<close>

lemma applyAddPrimaryKey_on_later_snapshot:
  "sent (snd (applyAddPrimaryKey acceptAll exampleSnapshotter emptyTx ''20240102000000'' 2
                \<lparr>apk_Table = ''users'', apk_Column = ''email''\<rparr>)) =
     [Stmt (dropConstraintQuery ''users'') [],
      Stmt (addConstraintQuery ''users'' (quoted ''id'' @ '', '' @ quoted ''email'')) []]"
  by (simp add: applyAddPrimaryKey_def exampleSnapshotter_def snapshotAsOf_def exampleLog_def
      usersId_def usersEmail_def getTableFromSnapshot_def getColumnFromTable_def
      updateTable_def Exec_def acceptAll_def emptyTx_def)

text \<open>
  C4. \<^verbatim>\<open>applyDeletePrimaryKey\<close> drops the constraint \<^verbatim>\<open>pkey\<close> and, when the server has
  executed the drop, sends an \<^verbatim>\<open>ADD CONSTRAINT\<close> over the key columns of the snapshot other
  than the target column, in their order. The statement is sent whatever the number of
  remaining columns: with none left its column list is empty.
\<close>

theorem applyDeletePrimaryKey_ddl:
  assumes "G migrationId (PInt actionIndex) = Inr snapshot"
    and "getTableFromSnapshot snapshot (dpk_Table p) = Some table"
    and "\<not> S (accepted t) (Stmt (dropConstraintQuery (dpk_Table p)) [])"
  shows "sent (snd (applyDeletePrimaryKey S G t migrationId actionIndex p)) =
           sent t @
           [Stmt (dropConstraintQuery (dpk_Table p)) [],
            Stmt (addConstraintQuery (dpk_Table p)
                    (commaList (map quoted
                       (filter (\<lambda>k. k \<noteq> dpk_Column p) (PrimaryKeys table))))) []]"
  using assms
  by (simp add: applyDeletePrimaryKey_def deleteKeys_commaList Exec_def)

text \<open>
  The table \<^verbatim>\<open>users\<close> with the single key column \<^verbatim>\<open>id\<close>, and \<^verbatim>\<open>deletePrimaryKey\<close> of
  \<^verbatim>\<open>id\<close>: after the drop, \<^verbatim>\<open>ADD CONSTRAINT pkey PRIMARY KEY ()\<close> is sent.
\<close>

theorem applyDeletePrimaryKey_last_key:
  "sent (snd (applyDeletePrimaryKey acceptAll exampleSnapshotter emptyTx ''20240102000000'' 0
                \<lparr>dpk_Table = ''users'', dpk_Column = ''id''\<rparr>)) =
     [Stmt (dropConstraintQuery ''users'') [],
      Stmt (nl @ tab @ tab @ ''ALTER TABLE '' @ quoted ''users'' @
            nl @ tab @ tab @ tab @ ''ADD CONSTRAINT pkey PRIMARY KEY ();'' @ nl @ tab) []]"
proof -
  let ?table = "\<lparr>Name = ''users'',
                 Columns = [(''id'', \<lparr>col_Type = ''integer'', col_IsNullable = False,
                                      col_DefaultValue = []\<rparr>)],
                 PrimaryKeys = [''id'']\<rparr>"
  let ?p = "\<lparr>dpk_Table = ''users'', dpk_Column = ''id''\<rparr>"
  have a: "exampleSnapshotter ''20240102000000'' (PInt 0) = Inr [?table]"
    by (simp add: exampleSnapshotter_def snapshotAsOf_def exampleLog_def usersId_def
        getTableFromSnapshot_def getColumnFromTable_def updateTable_def)
  have b: "getTableFromSnapshot [?table] (dpk_Table ?p) = Some ?table"
    by (simp add: getTableFromSnapshot_def)
  have c: "\<not> acceptAll (accepted emptyTx) (Stmt (dropConstraintQuery (dpk_Table ?p)) [])"
    by (simp add: acceptAll_def)
  show ?thesis
    using applyDeletePrimaryKey_ddl
      [where G = exampleSnapshotter and S = acceptAll and t = emptyTx and p = ?p, OF a b c]
    by (simp add: emptyTx_def addConstraintQuery_def)
qed

section \<open>Reading a migration\<close>

text \<open>
  C7, at the code: for an id without a file at its path, \<^verbatim>\<open>GetText\<close> drops the error of
  \<^verbatim>\<open>ReadFile\<close> and returns the empty text and no error, and \<^verbatim>\<open>Get\<close>, given that
  \<^verbatim>\<open>json.Unmarshal\<close> refuses the empty input, fails with the error of the parser,
  \<^verbatim>\<open>can't parse migration\<close>: the missing file is not reported.
\<close>

theorem Get_missing_file:
  assumes "map_of (files fs) (Join (Join (cwd fs) ''migrations'') (id' @ ''.json'')) = None"
    and "unmarshalMigration J [] = None"
  shows "GetText fs id' = ([], None) \<and>
         Get J fs id' =
           Inl (Errorf ''can't parse migration: %v/n'' [AErr (UnmarshalError [])])"
  using assms
  by (simp add: GetText_def Get_def getMigrationPath_def GetMigrationsDirectoryPath_def
      ReadFile_def split: option.splits)

theorem Get_missing_file_witness:
  "map_of (files exampleFiles)
     (Join (Join (cwd exampleFiles) ''migrations'') (''20240103000000'' @ ''.json'')) = None \<and>
   unmarshalMigration exampleJson [] = None \<and>
   GetText exampleFiles ''20240103000000'' = ([], None) \<and>
   Get exampleJson exampleFiles ''20240103000000'' =
     Inl (Errorf ''can't parse migration: %v/n'' [AErr (UnmarshalError [])])"
proof -
  have a: "map_of (files exampleFiles)
      (Join (Join (cwd exampleFiles) ''migrations'') (''20240103000000'' @ ''.json'')) = None"
    by code_simp
  have b: "unmarshalMigration exampleJson [] = None"
    by (simp add: exampleJson_def)
  show ?thesis
    using a b Get_missing_file [OF a b] by simp
qed

section \<open>Listing the migrations\<close>






lemma GetList_exampleFiles: "GetList exampleJson exampleFiles = Inr [migration1, migration2]"
  by code_simp

text \<open>
  Under the working directory \<^verbatim>\<open>/srv/app[1]\<close> the listing is empty, with the two files in
  the migrations directory.
\<close>

lemma GetList_bracketFiles: "GetList exampleJson bracketFiles = Inr []"
  by code_simp

section \<open>Appending an action\<close>




section \<open>DeleteColumn in the snapshot fold\<close>

lemma getTableFromSnapshot_updateTable:
  assumes "\<And>t. Name (f t) = Name t"
  shows "getTableFromSnapshot (updateTable snapshot name f) other =
           (if other = name then map_option f (getTableFromSnapshot snapshot name)
            else getTableFromSnapshot snapshot other)"
  using assms
  by (induction snapshot) (auto simp add: getTableFromSnapshot_def updateTable_def)

lemma getTableFromSnapshot_Name:
  "getTableFromSnapshot snapshot name = Some table \<Longrightarrow> Name table = name"
  by (auto simp add: getTableFromSnapshot_def find_Some_iff)

lemma map_of_filter_other: "map_of (filter (\<lambda>c. fst c \<noteq> name) columns) name = None"
  by (induction columns) auto

text \<open>
  C9, for the fold as the specification gives it. When the snapshot has table \<open>t\<close> and that
  table has column \<open>c\<close>, the step for DeleteColumn succeeds, and in the new snapshot the table
  \<open>t\<close> has the columns other than \<open>c\<close> and the key columns other than \<open>c\<close>, both in their
  order, so that \<open>c\<close> is neither a column nor a key; the other tables are as before. When
  the table or the column is absent the step fails with NotFoundError, and so does the fold
  of any sequence that starts with the action.
\<close>

theorem deleteColumn_step:
  "(getTableFromSnapshot snapshot (dc_Table p) = Some table \<longrightarrow>
      getColumnFromTable table (dc_Column p) = Some column \<longrightarrow>
      (\<exists>snapshot' table'.
         applyToSnapshot snapshot (PDeleteColumn p) = Inr snapshot' \<and>
         getTableFromSnapshot snapshot' (dc_Table p) = Some table' \<and>
         Name table' = dc_Table p \<and>
         Columns table' = filter (\<lambda>c. fst c \<noteq> dc_Column p) (Columns table) \<and>
         PrimaryKeys table' = filter (\<lambda>k. k \<noteq> dc_Column p) (PrimaryKeys table) \<and>
         getColumnFromTable table' (dc_Column p) = None \<and>
         dc_Column p \<notin> set (PrimaryKeys table') \<and>
         (\<forall>other. other \<noteq> dc_Table p \<longrightarrow>
            getTableFromSnapshot snapshot' other = getTableFromSnapshot snapshot other))) \<and>
   (getTableFromSnapshot snapshot (dc_Table p) = None \<or>
    (getTableFromSnapshot snapshot (dc_Table p) = Some table \<and>
     getColumnFromTable table (dc_Column p) = None) \<longrightarrow>
      applyToSnapshot snapshot (PDeleteColumn p) = Inl NotFoundError \<and>
      foldActions snapshot (PDeleteColumn p # rest) = Inl NotFoundError)"
proof (intro conjI impI)
  assume t: "getTableFromSnapshot snapshot (dc_Table p) = Some table"
    and c: "getColumnFromTable table (dc_Column p) = Some column"
  let ?f = "\<lambda>t. t\<lparr>Columns := filter (\<lambda>c. fst c \<noteq> dc_Column p) (Columns t),
                    PrimaryKeys := filter (\<lambda>k. k \<noteq> dc_Column p) (PrimaryKeys t)\<rparr>"
  let ?snapshot' = "updateTable snapshot (dc_Table p) ?f"
  have step: "applyToSnapshot snapshot (PDeleteColumn p) = Inr ?snapshot'"
    using t c by simp
  have look: "\<And>other. getTableFromSnapshot ?snapshot' other =
      (if other = dc_Table p then map_option ?f (getTableFromSnapshot snapshot (dc_Table p))
       else getTableFromSnapshot snapshot other)"
    by (rule getTableFromSnapshot_updateTable) simp
  have name: "Name table = dc_Table p"
    using t by (rule getTableFromSnapshot_Name)
  show "\<exists>snapshot' table'.
         applyToSnapshot snapshot (PDeleteColumn p) = Inr snapshot' \<and>
         getTableFromSnapshot snapshot' (dc_Table p) = Some table' \<and>
         Name table' = dc_Table p \<and>
         Columns table' = filter (\<lambda>c. fst c \<noteq> dc_Column p) (Columns table) \<and>
         PrimaryKeys table' = filter (\<lambda>k. k \<noteq> dc_Column p) (PrimaryKeys table) \<and>
         getColumnFromTable table' (dc_Column p) = None \<and>
         dc_Column p \<notin> set (PrimaryKeys table') \<and>
         (\<forall>other. other \<noteq> dc_Table p \<longrightarrow>
            getTableFromSnapshot snapshot' other = getTableFromSnapshot snapshot other)"
    using step look t name
    by (intro exI [of _ ?snapshot'] exI [of _ "?f table"])
       (simp add: getColumnFromTable_def map_of_filter_other)
next
  assume "getTableFromSnapshot snapshot (dc_Table p) = None \<or>
    (getTableFromSnapshot snapshot (dc_Table p) = Some table \<and>
     getColumnFromTable table (dc_Column p) = None)"
  then show "applyToSnapshot snapshot (PDeleteColumn p) = Inl NotFoundError"
    by auto
  then show "foldActions snapshot (PDeleteColumn p # rest) = Inl NotFoundError"
    by simp
qed

text \<open>
  In the concrete log: deleting the key column \<^verbatim>\<open>id\<close> of \<^verbatim>\<open>users\<close> after the first migration
  leaves the table without columns and without key; deleting a column of a table that does
  not exist fails.
\<close>

theorem deleteColumn_step_witness:
  "applyToSnapshot
     [\<lparr>Name = ''users'',
       Columns = [(''id'', \<lparr>col_Type = ''integer'', col_IsNullable = False,
                            col_DefaultValue = []\<rparr>)],
       PrimaryKeys = [''id'']\<rparr>]
     (PDeleteColumn \<lparr>dc_Table = ''users'', dc_Column = ''id''\<rparr>) =
     Inr [\<lparr>Name = ''users'', Columns = [], PrimaryKeys = []\<rparr>] \<and>
   applyToSnapshot [] (PDeleteColumn \<lparr>dc_Table = ''users'', dc_Column = ''id''\<rparr>) =
     Inl NotFoundError"
proof -
  let ?table = "\<lparr>Name = ''users'',
       Columns = [(''id'', \<lparr>col_Type = ''integer'', col_IsNullable = False,
                            col_DefaultValue = []\<rparr>)],
       PrimaryKeys = [''id'']\<rparr>"
  let ?p = "\<lparr>dc_Table = ''users'', dc_Column = ''id''\<rparr>"
  have a: "getTableFromSnapshot [?table] (dc_Table ?p) = Some ?table"
    by (simp add: getTableFromSnapshot_def)
  have b: "getColumnFromTable ?table (dc_Column ?p) =
      Some \<lparr>col_Type = ''integer'', col_IsNullable = False, col_DefaultValue = []\<rparr>"
    by (simp add: getColumnFromTable_def)
  have c: "getTableFromSnapshot [] (dc_Table ?p) = None"
    by (simp add: getTableFromSnapshot_def)
  show ?thesis
    using a b c
      deleteColumn_step [of "[?table]" ?p ?table
        "\<lparr>col_Type = ''integer'', col_IsNullable = False, col_DefaultValue = []\<rparr>" "[]"]
      deleteColumn_step [of "[]" ?p ?table
        "\<lparr>col_Type = ''integer'', col_IsNullable = False, col_DefaultValue = []\<rparr>" "[]"]
    by (simp add: updateTable_def getTableFromSnapshot_def getColumnFromTable_def)
qed

section \<open>Facts about the iteration of Sync\<close>













text \<open>The loop sends nothing when it passes over every migration.\<close>

lemma syncLoop_nothing_pending:
  "pending cur passed migrations = [] \<Longrightarrow> syncLoop J S G cur passed migrations t = Inr t"
  by (induction migrations arbitrary: passed) (auto split: if_splits)

lemma pending_not_in_log:
  "cur \<notin> Id ` set migrations \<Longrightarrow> pending cur False migrations = []"
  by (induction migrations) auto



section \<open>The marker and the migrations passed over\<close>










section \<open>Sync: the run as a whole\<close>

lemma getCurrentSyncedMigrationId_greatest:
  "queryError W = None \<Longrightarrow>
   getCurrentSyncedMigrationId W t = (foldr max (map fst (rows t)) [], None)"
  by (simp add: getCurrentSyncedMigrationId_def)

text \<open>A run that meets no error before the loop is the loop followed by the commit.\<close>

lemma Sync_reaches_loop:
  assumes "GetList J fs = Inr migrations"
    and "connectError W = None" and "beginError W = None" and "queryError W = None"
    and "\<not> refuses W [] createMigrationsTable"
  shows "Sync J fs G (Inr snapshot) W =
           (case syncLoop J (refuses W) G (foldr max (map fst (stored W)) [])
                   (foldr max (map fst (stored W)) [] = []) migrations
                   \<lparr>sent = [createMigrationsTable], accepted = [createMigrationsTable],
                    rows = stored W\<rparr> of
              Inl (err, t2) \<Rightarrow>
                \<lparr>returned = Some err, ending = RollbackCalled, transaction = t2\<rparr>
            | Inr t2 \<Rightarrow>
                \<lparr>returned = commitError W, ending = CommitCalled, transaction = t2\<rparr>)"
  using assms
  by (simp add: Sync_def Let_def addMigrationsTableIfNotExist_def Exec_def effect_def
      createMigrationsTable_def getCurrentSyncedMigrationId_greatest)


section \<open>A marker that is not in the log\<close>

text \<open>
  C1, as amended. When the marker read from the store is not empty and is the id of no
  migration of the log, a run that reaches the loop passes over every migration: the only
  statement it sends is the creation of the bookkeeping table, no row is inserted, and it
  ends with the commit.
\<close>

theorem Sync_marker_not_in_log:
  assumes "GetList J fs = Inr migrations"
    and "connectError W = None" and "beginError W = None" and "queryError W = None"
    and "\<not> refuses W [] createMigrationsTable"
    and "foldr max (map fst (stored W)) [] \<noteq> []"
    and "foldr max (map fst (stored W)) [] \<notin> Id ` set migrations"
  shows "Sync J fs G (Inr snapshot) W =
           \<lparr>returned = commitError W, ending = CommitCalled,
            transaction = \<lparr>sent = [createMigrationsTable], accepted = [createMigrationsTable],
                           rows = stored W\<rparr>\<rparr>"
proof -
  let ?cur = "foldr max (map fst (stored W)) []"
  have "pending ?cur False migrations = []"
    using assms(7) by (rule pending_not_in_log)
  then have "syncLoop J (refuses W) G ?cur False migrations
               \<lparr>sent = [createMigrationsTable], accepted = [createMigrationsTable],
                rows = stored W\<rparr> =
             Inr \<lparr>sent = [createMigrationsTable], accepted = [createMigrationsTable],
                  rows = stored W\<rparr>"
    by (rule syncLoop_nothing_pending)
  with assms(6) show ?thesis
    by (simp add: Sync_reaches_loop [OF assms(1-5)])
qed

text \<open>
  C1, as stated, fails: the store holds one row, of a migration \<^verbatim>\<open>20230101000000\<close> that the
  log does not have. The log has two migrations of three and two actions; the run sends
  the creation of the bookkeeping table and nothing else, and commits.
\<close>

theorem Sync_marker_not_in_log_counterexample:
  "GetList exampleJson exampleFiles = Inr [migration1, migration2] \<and>
   getCurrentSyncedMigrationId
     (emptyStore\<lparr>stored := [(''20230101000000'', ''migration 20230101000000'')]\<rparr>)
     \<lparr>sent = [createMigrationsTable], accepted = [createMigrationsTable],
      rows = [(''20230101000000'', ''migration 20230101000000'')]\<rparr> =
     (''20230101000000'', None) \<and>
   Sync exampleJson exampleFiles exampleSnapshotter exampleCurrentSnapshot
     (emptyStore\<lparr>stored := [(''20230101000000'', ''migration 20230101000000'')]\<rparr>) =
     \<lparr>returned = None, ending = CommitCalled,
      transaction = \<lparr>sent = [createMigrationsTable], accepted = [createMigrationsTable],
                     rows = [(''20230101000000'', ''migration 20230101000000'')]\<rparr>\<rparr>"
proof -
  have snap: "exampleCurrentSnapshot =
      Inr [\<lparr>Name = ''users'',
            Columns = [(''id'', \<lparr>col_Type = ''integer'', col_IsNullable = False,
                                 col_DefaultValue = []\<rparr>),
                       (''email'', \<lparr>col_Type = ''text'', col_IsNullable = True,
                                    col_DefaultValue = []\<rparr>)],
            PrimaryKeys = [''id'', ''email'']\<rparr>]"
    by (simp add: exampleCurrentSnapshot_def exampleLog_def usersId_def usersEmail_def
        getTableFromSnapshot_def getColumnFromTable_def updateTable_def)
  show ?thesis
    by (simp add: GetList_exampleFiles snap Sync_def emptyStore_def acceptAll_def
        addMigrationsTableIfNotExist_def Exec_def effect_def createMigrationsTable_def
        getCurrentSyncedMigrationId_def migration1_def migration2_def)
qed

theorem Sync_marker_not_in_log_witness:
  "Sync exampleJson exampleFiles exampleSnapshotter (Inr [])
     (emptyStore\<lparr>stored := [(''20230101000000'', ''migration 20230101000000'')]\<rparr>) =
     \<lparr>returned = None, ending = CommitCalled,
      transaction = \<lparr>sent = [createMigrationsTable], accepted = [createMigrationsTable],
                     rows = [(''20230101000000'', ''migration 20230101000000'')]\<rparr>\<rparr>"
proof -
  let ?W = "emptyStore\<lparr>stored := [(''20230101000000'', ''migration 20230101000000'')]\<rparr>"
  have a: "connectError ?W = None" and b: "beginError ?W = None"
    and c: "queryError ?W = None"
    by (simp_all add: emptyStore_def)
  have d: "\<not> refuses ?W [] createMigrationsTable"
    by (simp add: emptyStore_def acceptAll_def)
  have e: "foldr max (map fst (stored ?W)) [] \<noteq> []"
    by simp
  have f: "foldr max (map fst (stored ?W)) [] \<notin> Id ` set [migration1, migration2]"
    by (simp add: migration1_def migration2_def)
  show ?thesis
    using Sync_marker_not_in_log [OF GetList_exampleFiles a b c d e f,
        of exampleSnapshotter "[]"]
    by (simp add: emptyStore_def)
qed

section \<open>A failed bookkeeping insert\<close>

text \<open>
  C2, at the code. The server refuses the two bookkeeping inserts and nothing else; the
  store is empty and the log is the concrete one. \<^verbatim>\<open>Sync\<close> does not see the refusals: it
  goes on to the second migration after the first insert has failed, ends with \<^verbatim>\<open>Commit\<close>
  and returns no error, with the statements of both migrations executed and no bookkeeping
  row.
\<close>

theorem Sync_insert_refused:
  "Sync exampleJson exampleFiles exampleSnapshotter exampleCurrentSnapshot
     (emptyStore\<lparr>refuses := (\<lambda>executed s. query s = insertQuery)\<rparr>) =
     \<lparr>returned = None, ending = CommitCalled,
      transaction =
        \<lparr>sent = [createMigrationsTable,
                 Stmt (''CREATE TABLE '' @ quoted ''users'' @ '' ();'') [],
                 Stmt (addColumnQuery usersId) [],
                 Stmt (addConstraintQuery ''users'' []) [],
                 Stmt insertQuery [''20240101000000'', ''migration 20240101000000''],
                 Stmt (addColumnQuery usersEmail) [],
                 Stmt (addConstraintQuery ''users'' (quoted ''id'')) [],
                 Stmt insertQuery [''20240102000000'', ''migration 20240102000000'']],
         accepted = [createMigrationsTable,
                     Stmt (''CREATE TABLE '' @ quoted ''users'' @ '' ();'') [],
                     Stmt (addColumnQuery usersId) [],
                     Stmt (addConstraintQuery ''users'' []) [],
                     Stmt (addColumnQuery usersEmail) [],
                     Stmt (addConstraintQuery ''users'' (quoted ''id'')) []],
         rows = []\<rparr>\<rparr>"
  by code_simp

section \<open>Idempotence of Sync\<close>




end
